theory Spec2Isabelle
  imports Main "HOL-Library.Word" "HOL-Library.AList"
begin

section \<open>The organisation registration page\<close>

text \<open>
  A shallow embedding of \<^verbatim>\<open>src/app/(auth-routes)/register/organisation/page.tsx\<close>:
  the validation schema, the form's submit wrapper, the asynchronous submit handler
  \<^verbatim>\<open>onSubmit\<close> and the part of the rendered page that depends on the component's state.
\<close>

subsection \<open>Strings\<close>

text \<open>
  A JavaScript string is a sequence of UTF-16 code units and \<^verbatim>\<open>.length\<close> counts code
  units, which is what the schema's \<^verbatim>\<open>min\<close> checks compare. String literals of the source
  are ASCII and are written with \<open>lit\<close>.
\<close>

type_synonym jsstring = "16 word list"

definition lit :: "string \<Rightarrow> jsstring" where
  "lit s = map (\<lambda>c. of_nat (of_char c)) s"

text \<open>
  A template literal \<^verbatim>\<open>`${x}`\<close> converts its argument to a string; \<^verbatim>\<open>undefined\<close>
  (here \<open>None\<close>) becomes the nine characters \<^verbatim>\<open>undefined\<close>.
\<close>

definition template :: "jsstring option \<Rightarrow> jsstring" where
  "template x = (case x of None \<Rightarrow> lit ''undefined'' | Some s \<Rightarrow> s)"

subsection \<open>The form data and its schema\<close>

text \<open>\<^verbatim>\<open>type FormData = z.infer<typeof formSchema>\<close>: seven strings.\<close>

record FormData =
  name :: jsstring
  email :: jsstring
  industry :: jsstring
  type :: jsstring
  country :: jsstring
  state :: jsstring
  address :: jsstring

text \<open>
  A schema check on one string yields the message of its issue, or nothing.
  \<^verbatim>\<open>z.string().min(n, {message})\<close> fails when the input has fewer than \<open>n\<close> code units.
  \<^verbatim>\<open>z.string().email({message})\<close> fails when the input does not match the validation
  library's email pattern; the pattern belongs to the library and is the parameter
  \<open>is_email\<close> throughout.
\<close>

definition z_string_min :: "nat \<Rightarrow> jsstring \<Rightarrow> jsstring \<Rightarrow> jsstring option" where
  "z_string_min n message input = (if length input < n then Some message else None)"

definition z_string_email :: "(jsstring \<Rightarrow> bool) \<Rightarrow> jsstring \<Rightarrow> jsstring \<Rightarrow> jsstring option" where
  "z_string_email is_email message input = (if is_email input then None else Some message)"

text \<open>
  \<^verbatim>\<open>z.object({...})\<close> checks its keys in the order they are written and collects the
  issues, each with the key as its path.
\<close>

type_synonym issue = "jsstring \<times> jsstring"

fun z_object :: "(jsstring \<times> jsstring option) list \<Rightarrow> issue list" where
  "z_object [] = []"
| "z_object ((key, None) # checks) = z_object checks"
| "z_object ((key, Some message) # checks) = (key, message) # z_object checks"

definition formSchema :: "(jsstring \<Rightarrow> bool) \<Rightarrow> FormData \<Rightarrow> issue list" where
  "formSchema is_email d = z_object
     [(lit ''name'',
         z_string_min 2 (lit ''Company name must be at least 2 characters.'') (name d)),
      (lit ''email'',
         z_string_email is_email (lit ''Company email must be a valid email address.'') (email d)),
      (lit ''industry'',
         z_string_min 1 (lit ''Please select an industry.'') (industry d)),
      (lit ''type'',
         z_string_min 1 (lit ''Please select an organization type.'') (type d)),
      (lit ''country'',
         z_string_min 1 (lit ''Please select a country.'') (country d)),
      (lit ''state'',
         z_string_min 1 (lit ''Please select a state.'') (state d)),
      (lit ''address'',
         z_string_min 1 (lit ''Please enter company address.'') (address d))]"

text \<open>The names of the seven form fields, in the order of the schema.\<close>

definition field_names :: "jsstring list" where
  "field_names = [lit ''name'', lit ''email'', lit ''industry'', lit ''type'',
                  lit ''country'', lit ''state'', lit ''address'']"

text \<open>
  The options the four select controls offer (the \<^verbatim>\<open>SelectItem\<close> values of the page).
\<close>

definition industry_options :: "jsstring list" where
  "industry_options = [lit ''Technology'']"

definition type_options :: "jsstring list" where
  "type_options = [lit ''Entertainment'']"

definition country_options :: "jsstring list" where
  "country_options = [lit ''Nigeria'']"

definition state_options :: "jsstring list" where
  "state_options = [lit ''Lagos'']"

subsection \<open>Session, requests, notifications\<close>

text \<open>
  The session as the handler reads it: \<^verbatim>\<open>session?.user?.id\<close> and
  \<^verbatim>\<open>session?.access_token\<close>. \<open>None\<close> stands for \<^verbatim>\<open>undefined\<close> (or \<^verbatim>\<open>null\<close>, which
  optional chaining treats alike).
\<close>

record user =
  id' :: "jsstring option"

record session =
  user :: "user option"
  access_token :: "jsstring option"

definition session_user_id :: "session option \<Rightarrow> jsstring option" where
  "session_user_id s =
     (case s of None \<Rightarrow> None
      | Some s' \<Rightarrow> (case user s' of None \<Rightarrow> None | Some u \<Rightarrow> id' u))"

definition session_access_token :: "session option \<Rightarrow> jsstring option" where
  "session_access_token s = (case s of None \<Rightarrow> None | Some s' \<Rightarrow> access_token s')"

text \<open>\<^verbatim>\<open>{...data, user_id: session?.user?.id, description: "n/a"}\<close>\<close>

record payload = FormData +
  user_id :: "jsstring option"
  description :: jsstring

datatype http_method = GET | POST | PUT | PATCH | DELETE

record request =
  verb :: http_method
  url :: jsstring
  data :: payload
  headers :: "(jsstring \<times> jsstring) list"

subsection \<open>Values\<close>

text \<open>
  The body of a response is untyped (\<^verbatim>\<open>any\<close>): whatever the server sent, parsed. So
  is everything the handler reads out of it. A number is represented by an integer; the
  handler only ever tests whether one is zero.
\<close>

datatype jsvalue =
    JUndefined
  | JNull
  | JBool bool
  | JNumber int
  | JString jsstring
  | JArray "jsvalue list"
  | JObject "(jsstring \<times> jsvalue) list"

datatype exn = TypeError

text \<open>What \<^verbatim>\<open>x || d\<close> and \<^verbatim>\<open>if (x)\<close> test.\<close>

fun truthy :: "jsvalue \<Rightarrow> bool" where
  "truthy JUndefined = False"
| "truthy JNull = False"
| "truthy (JBool b) = b"
| "truthy (JNumber n) = (n \<noteq> 0)"
| "truthy (JString s) = (s \<noteq> [])"
| "truthy (JArray xs) = True"
| "truthy (JObject kvs) = True"

text \<open>The decimal digits of an array index, as a property key.\<close>

fun decimal :: "nat \<Rightarrow> jsstring" where
  "decimal n = (if n < 10 then [48 + of_nat n] else decimal (n div 10) @ [48 + of_nat (n mod 10)])"

declare decimal.simps [simp del]

definition indexed :: "'a list \<Rightarrow> (jsstring \<times> 'a) list" where
  "indexed xs = zip (map decimal [0..<length xs]) xs"

text \<open>
  The own enumerable properties of a value, in order (what \<^verbatim>\<open>{...x}\<close> copies): the
  entries of an object, the elements of an array and the characters of a string under
  their indices, nothing for the other primitives.
\<close>

fun own_props :: "jsvalue \<Rightarrow> (jsstring \<times> jsvalue) list" where
  "own_props (JObject kvs) = kvs"
| "own_props (JArray xs) = indexed xs"
| "own_props (JString s) = indexed (map (\<lambda>c. JString [c]) s)"
| "own_props v = []"

text \<open>
  \<^verbatim>\<open>x[k]\<close> on a value that is neither \<^verbatim>\<open>null\<close> nor \<^verbatim>\<open>undefined\<close>: an own property,
  the \<^verbatim>\<open>length\<close> of an array or string, and otherwise \<^verbatim>\<open>undefined\<close>. An object is
  looked up by the first entry of the key. Properties inherited from the built-in
  prototypes (\<^verbatim>\<open>toString\<close> and the like) are functions, which \<open>jsvalue\<close> does not
  represent; none of the names the handler reads (\<^verbatim>\<open>errors\<close>, \<^verbatim>\<open>message\<close>,
  \<^verbatim>\<open>field\<close>) is one.
\<close>

fun js_get :: "jsvalue \<Rightarrow> jsstring \<Rightarrow> jsvalue" where
  "js_get (JArray xs) k =
     (case map_of (indexed xs) k of
        Some x \<Rightarrow> x
      | None \<Rightarrow> if k = lit ''length'' then JNumber (int (length xs)) else JUndefined)"
| "js_get (JString s) k =
     (case map_of (indexed (map (\<lambda>c. JString [c]) s)) k of
        Some x \<Rightarrow> x
      | None \<Rightarrow> if k = lit ''length'' then JNumber (int (length s)) else JUndefined)"
| "js_get v k = (case map_of (own_props v) k of Some x \<Rightarrow> x | None \<Rightarrow> JUndefined)"

text \<open>
  The handler's \<^verbatim>\<open>x.k\<close>: reading a property of \<^verbatim>\<open>null\<close> or \<^verbatim>\<open>undefined\<close> throws a
  \<^verbatim>\<open>TypeError\<close>.
\<close>

fun js_member :: "jsvalue \<Rightarrow> jsstring \<Rightarrow> exn + jsvalue" where
  "js_member JUndefined k = Inl TypeError"
| "js_member JNull k = Inl TypeError"
| "js_member v k = Inr (js_get v k)"

subsection \<open>Notifications and responses\<close>

record toast =
  title :: jsstring
  description :: jsvalue
  variant :: "jsstring option"

text \<open>
  What the network delivers for a request, and how the HTTP client settles the promise
  of \<^verbatim>\<open>axios.post\<close>: with the client's default \<^verbatim>\<open>validateStatus\<close> a response fulfils the
  promise exactly when its status is in 200..299; any other response rejects it with an
  error that carries the response (its status and its body \<^verbatim>\<open>data\<close>); a failure
  without a response rejects it with an error that has none.
\<close>

datatype http_result = Response nat jsvalue | NoResponse

datatype settled = Fulfilled | RejectedWithResponse nat jsvalue | RejectedOther

definition validateStatus :: "nat \<Rightarrow> bool" where
  "validateStatus status = (200 \<le> status \<and> status < 300)"

definition axios_settle :: "http_result \<Rightarrow> settled" where
  "axios_settle r =
     (case r of
        Response status d \<Rightarrow>
          if validateStatus status then Fulfilled else RejectedWithResponse status d
      | NoResponse \<Rightarrow> RejectedOther)"

subsection \<open>The component's state\<close>

text \<open>
  The state of \<^verbatim>\<open>Organisation\<close>: the session, the two \<^verbatim>\<open>useState\<close> cells, the form's
  error object \<^verbatim>\<open>formState.errors\<close> (its properties, in order), and what the component
  has asked of its collaborators so far (requests handed to the HTTP client,
  notifications shown, paths pushed to the router).
\<close>

record component =
  session :: "session option"
  isLoading :: bool
  apiUrl :: jsstring
  formState_errors :: "(jsstring \<times> jsvalue) list"
  posted :: "request list"
  toasts :: "toast list"
  pushed :: "jsstring list"

definition initial :: "session option \<Rightarrow> component" where
  "initial s = \<lparr>session = s, isLoading = False, apiUrl = [], formState_errors = [],
                posted = [], toasts = [], pushed = []\<rparr>"

definition toast_show :: "toast \<Rightarrow> component \<Rightarrow> component" where
  "toast_show t st = st\<lparr>toasts := toasts st @ [t]\<rparr>"

definition router_push :: "jsstring \<Rightarrow> component \<Rightarrow> component" where
  "router_push path st = st\<lparr>pushed := pushed st @ [path]\<rparr>"

definition axios_post ::
  "jsstring \<Rightarrow> payload \<Rightarrow> (jsstring \<times> jsstring) list \<Rightarrow> component \<Rightarrow> component" where
  "axios_post u p hs st =
     st\<lparr>posted := posted st @ [\<lparr>verb = POST, url = u, data = p, headers = hs\<rparr>]\<rparr>"

text \<open>
  What a field of the form finds under its name in the error object (\<^verbatim>\<open>errors[name]\<close>),
  and the message string it carries, if any.
\<close>

definition field_entry :: "component \<Rightarrow> jsstring \<Rightarrow> jsvalue" where
  "field_entry st k = js_get (JObject (formState_errors st)) k"

definition form_errors :: "component \<Rightarrow> jsstring \<Rightarrow> jsstring option" where
  "form_errors st k =
     (case js_get (field_entry st k) (lit ''message'') of JString m \<Rightarrow> Some m | _ \<Rightarrow> None)"

subsection \<open>The form library: setting and clearing errors\<close>

text \<open>
  The form library (react-hook-form, version 7) reads a field name as a path into the
  error object. A name made only of letters, digits and underscores is one key. Any other
  name is split into keys at \<^verbatim>\<open>.\<close> and \<^verbatim>\<open>[\<close>, after \<^verbatim>\<open>]\<close> and quotes are dropped, and
  empty keys are left out: \<^verbatim>\<open>email.x\<close> is the key \<^verbatim>\<open>x\<close> inside the entry of
  \<^verbatim>\<open>email\<close>.
\<close>

fun split_at :: "(16 word \<Rightarrow> bool) \<Rightarrow> jsstring \<Rightarrow> jsstring list" where
  "split_at sep [] = [[]]"
| "split_at sep (c # cs) =
     (if sep c then [] # split_at sep cs
      else (case split_at sep cs of [] \<Rightarrow> [[c]] | seg # segs \<Rightarrow> (c # seg) # segs))"

definition compact :: "jsstring list \<Rightarrow> jsstring list" where
  "compact segs = filter (\<lambda>s. s \<noteq> []) segs"

definition word_char :: "16 word \<Rightarrow> bool" where
  "word_char c = (48 \<le> c \<and> c \<le> 57 \<or> 65 \<le> c \<and> c \<le> 90 \<or> c = 95 \<or> 97 \<le> c \<and> c \<le> 122)"

text \<open>\<^verbatim>\<open>isKey = value => /^\w*$/.test(value)\<close>\<close>

definition isKey :: "jsstring \<Rightarrow> bool" where
  "isKey s = list_all word_char s"

text \<open>
  \<^verbatim>\<open>stringToPath = input => compact(input.replace(/["|']|\]/g, '').split(/\.|\[/))\<close>
\<close>

definition stringToPath :: "jsstring \<Rightarrow> jsstring list" where
  "stringToPath input =
     compact (split_at (\<lambda>c. c = 46 \<or> c = 91)
                (filter (\<lambda>c. c \<noteq> 34 \<and> c \<noteq> 124 \<and> c \<noteq> 39 \<and> c \<noteq> 93) input))"

text \<open>
  \<^verbatim>\<open>isObject\<close> of the library holds of objects that are neither \<^verbatim>\<open>null\<close> nor arrays.
\<close>

fun isObject :: "jsvalue \<Rightarrow> bool" where
  "isObject (JObject kvs) = True"
| "isObject v = False"

fun isArray :: "jsvalue \<Rightarrow> bool" where
  "isArray (JArray xs) = True"
| "isArray v = False"

text \<open>
  \<^verbatim>\<open>object[key] = value\<close> on an object or an array: an existing key keeps its place, a
  new one goes last. The result is kept as the list of its properties, so an array
  written to is from then on represented by its indexed entries.
\<close>

definition assign :: "jsvalue \<Rightarrow> jsstring \<Rightarrow> jsvalue \<Rightarrow> jsvalue" where
  "assign obj k v = JObject (AList.update k v (own_props obj))"

text \<open>
  The library's \<^verbatim>\<open>set(object, path, value)\<close>, along the keys of the path: a key on the
  way that does not hold an object or an array gets a fresh container (an empty array
  when the next key is numeric, represented here like an empty object); \<^verbatim>\<open>__proto__\<close>
  ends the walk.
\<close>

fun set_path :: "jsvalue \<Rightarrow> jsstring list \<Rightarrow> jsvalue \<Rightarrow> jsvalue" where
  "set_path obj [] v = obj"
| "set_path obj [key] v = (if key = lit ''__proto__'' then obj else assign obj key v)"
| "set_path obj (key # next # rest) v =
     (if key = lit ''__proto__'' then obj
      else (let objValue = js_get obj key;
                newValue = (if isObject objValue \<or> isArray objValue then objValue else JObject [])
            in assign obj key (set_path newValue (next # rest) v)))"

text \<open>
  The library's \<^verbatim>\<open>get(errors, path)\<close>: nothing for the empty name; otherwise the value
  reached along the keys of the path (split at \<^verbatim>\<open>, [ ] .\<close>), and when that walk finds
  nothing, the property whose key is the whole name.
\<close>

definition get_error :: "(jsstring \<times> jsvalue) list \<Rightarrow> jsstring \<Rightarrow> jsvalue" where
  "get_error errs path =
     (if path = [] then JUndefined
      else (let segs = compact (split_at (\<lambda>c. c = 44 \<or> c = 91 \<or> c = 93 \<or> c = 46) path);
                result = fold (\<lambda>key r. if r = JUndefined \<or> r = JNull then r else js_get r key)
                           segs (JObject errs)
            in if result = JUndefined \<or> segs = [] then js_get (JObject errs) path else result))"

text \<open>
  \<^verbatim>\<open>{...restOfErrorTree, ...error}\<close>: what is already stored at the name, without its
  \<^verbatim>\<open>ref\<close>, \<^verbatim>\<open>message\<close> and \<^verbatim>\<open>type\<close>, overwritten by the new error. The \<^verbatim>\<open>ref\<close> the
  library adds, a handle on the input control, is not represented.
\<close>

definition merge_error :: "jsvalue \<Rightarrow> (jsstring \<times> jsvalue) list \<Rightarrow> jsvalue" where
  "merge_error currentError error =
     JObject (fold (\<lambda>(k, v). AList.update k v) error
                (filter (\<lambda>(k, v). k \<noteq> lit ''ref'' \<and> k \<noteq> lit ''message'' \<and> k \<noteq> lit ''type'')
                   (own_props currentError)))"

definition store_error ::
  "jsstring list \<Rightarrow> jsvalue \<Rightarrow> (jsstring \<times> jsvalue) list \<Rightarrow> component \<Rightarrow> component" where
  "store_error tempPath currentError error st =
     st\<lparr>formState_errors :=
          own_props (set_path (JObject (formState_errors st)) tempPath
                       (merge_error currentError error))\<rparr>"

text \<open>
  \<^verbatim>\<open>form.setError(name, error)\<close>. The handler's cast \<^verbatim>\<open>err.field as keyof FormData\<close>
  is erased at run time, so the name is whatever the response holds. For a string the
  library merges the error into what is stored at the name. A name that is not a string
  is looked up with string methods when it is truthy, which throws; when it is falsy the
  lookup is skipped and the error is stored under the name's string form.
\<close>

definition form_setError ::
  "jsvalue \<Rightarrow> (jsstring \<times> jsvalue) list \<Rightarrow> component \<Rightarrow> exn option \<times> component" where
  "form_setError fname error st =
     (case fname of
        JString path \<Rightarrow>
          (let got = get_error (formState_errors st) path;
               currentError = (if truthy got then got else JObject []);
               tempPath = (if isKey path then [path] else stringToPath path)
           in (None, store_error tempPath currentError error st))
      | JUndefined \<Rightarrow> (None, store_error [lit ''undefined''] (JObject []) error st)
      | JNull \<Rightarrow> (None, store_error [lit ''null''] (JObject []) error st)
      | JBool b \<Rightarrow>
          if b then (Some TypeError, st)
          else (None, store_error [lit ''false''] (JObject []) error st)
      | JNumber n \<Rightarrow>
          if n \<noteq> 0 then (Some TypeError, st)
          else (None, store_error [lit ''0''] (JObject []) error st)
      | JArray xs \<Rightarrow> (Some TypeError, st)
      | JObject kvs \<Rightarrow> (Some TypeError, st))"

text \<open>\<^verbatim>\<open>form.clearErrors()\<close> replaces the error object by an empty one.\<close>

definition form_clearErrors :: "component \<Rightarrow> component" where
  "form_clearErrors st = st\<lparr>formState_errors := []\<rparr>"

subsection \<open>Validation on submit\<close>

text \<open>
  \<^verbatim>\<open>zodResolver(formSchema)\<close>: the parsed values when the schema has no issue, otherwise
  the error object, which holds for each path the message of its first issue. (The
  issue's code, stored as the entry's \<^verbatim>\<open>type\<close>, is not represented.)
\<close>

definition toNestErrors :: "issue list \<Rightarrow> (jsstring \<times> jsvalue) list" where
  "toNestErrors issues =
     fold (\<lambda>(path, message) errs.
             if map_of errs path = None
             then errs @ [(path, JObject [(lit ''message'', JString message)])]
             else errs)
       issues []"

definition zodResolver ::
  "(FormData \<Rightarrow> issue list) \<Rightarrow> FormData \<Rightarrow> (jsstring \<times> jsvalue) list + FormData" where
  "zodResolver schema d =
     (case schema d of [] \<Rightarrow> Inr d | i # is \<Rightarrow> Inl (toNestErrors (i # is)))"

text \<open>
  \<^verbatim>\<open>form.handleSubmit(onValid)\<close>: the resolver's errors replace the form's error object;
  the handler is called, with the parsed values, only when there is none.
\<close>

definition handleSubmit ::
  "(FormData \<Rightarrow> (jsstring \<times> jsvalue) list + FormData) \<Rightarrow>
   (FormData \<Rightarrow> component \<Rightarrow> component) \<Rightarrow> FormData \<Rightarrow> component \<Rightarrow> component" where
  "handleSubmit resolver onValid values st =
     (case resolver values of
        Inl errs \<Rightarrow> st\<lparr>formState_errors := errs\<rparr>
      | Inr parsed \<Rightarrow> onValid parsed (st\<lparr>formState_errors := []\<rparr>))"

subsection \<open>The submit handler\<close>

text \<open>
  \<^verbatim>\<open>onSubmit\<close> is asynchronous. \<open>onSubmit_start\<close> is the part that runs up to the
  \<^verbatim>\<open>await\<close>: it sets the submitting flag, builds the payload and hands the request to
  the HTTP client. \<open>onSubmit_settle\<close> is the part that runs once the promise has settled:
  the rest of the \<^verbatim>\<open>try\<close> block or the \<^verbatim>\<open>catch\<close> block, then
  \<^verbatim>\<open>setIsLoading(false)\<close>. The \<^verbatim>\<open>catch\<close> block is not itself guarded: an exception
  thrown inside it leaves the handler at that point. The result is the exception, if
  any, and the state the component is left in.
\<close>

definition onSubmit_start :: "FormData \<Rightarrow> component \<Rightarrow> component" where
  "onSubmit_start d st =
     (let st1 = st\<lparr>isLoading := True\<rparr>;
          p = FormData.extend d
                \<lparr>user_id = session_user_id (session st), payload.description = lit ''n/a''\<rparr>
      in axios_post (apiUrl st @ lit ''/api/v1/organizations'') p
           [(lit ''Authorization'', lit ''Bearer '' @ template (session_access_token (session st)))]
           st1)"

text \<open>
  \<^verbatim>\<open>validationErrors.forEach((err) => form.setError(err.field, {type: "manual",
  message: err.message}))\<close> on an array: the elements in order, up to the first one for
  which reading \<^verbatim>\<open>err.field\<close> or the library throws.
\<close>

fun validationErrors_forEach :: "jsvalue list \<Rightarrow> component \<Rightarrow> exn option \<times> component" where
  "validationErrors_forEach [] st = (None, st)"
| "validationErrors_forEach (err # errs) st =
     (case js_member err (lit ''field'') of
        Inl e \<Rightarrow> (Some e, st)
      | Inr fname \<Rightarrow>
          (case js_member err (lit ''message'') of
             Inl e \<Rightarrow> (Some e, st)
           | Inr message \<Rightarrow>
               (case form_setError fname
                       [(lit ''type'', JString (lit ''manual'')), (lit ''message'', message)] st of
                  (Some e, st') \<Rightarrow> (Some e, st')
                | (None, st') \<Rightarrow> validationErrors_forEach errs st')))"

definition onSubmit_settle :: "settled \<Rightarrow> component \<Rightarrow> exn option \<times> component" where
  "onSubmit_settle r st =
     (case
        (case r of
           Fulfilled \<Rightarrow>
             (None,
              router_push (lit ''/dashboard'')
                (toast_show \<lparr>title = lit ''Organization created successfully'',
                             description = JString (lit ''Continue to dashboard''),
                             variant = None\<rparr> st))
         | RejectedWithResponse status d \<Rightarrow>
             if status = 422 then
               (case js_member d (lit ''errors'') of
                  Inl e \<Rightarrow> (Some e, st)
                | Inr errors \<Rightarrow>
                    (let validationErrors = (if truthy errors then errors else JArray []);
                         st1 = form_clearErrors st
                     in (case validationErrors of
                           JArray errs \<Rightarrow> validationErrors_forEach errs st1
                         | _ \<Rightarrow> (Some TypeError, st1))))
             else
               (case js_member d (lit ''message'') of
                  Inl e \<Rightarrow> (Some e, st)
                | Inr message \<Rightarrow>
                    (None,
                     toast_show \<lparr>title = lit ''Error occurred'',
                                 description =
                                   (if truthy message then message
                                    else JString (lit ''Failed to submit the form. Please try again.'')),
                                 variant = None\<rparr> st))
         | RejectedOther \<Rightarrow>
             (None,
              toast_show \<lparr>title = lit ''Error occured'',
                          description = JString (lit ''An unexpected error occurred.''),
                          variant = None\<rparr> st))
      of
        (Some e, st2) \<Rightarrow> (Some e, st2)
      | (None, st2) \<Rightarrow> (None, st2\<lparr>isLoading := False\<rparr>))"

text \<open>The \<^verbatim>\<open>onSubmit\<close> attribute of the form: \<^verbatim>\<open>form.handleSubmit(onSubmit)\<close>.\<close>

definition form_onSubmit :: "(jsstring \<Rightarrow> bool) \<Rightarrow> FormData \<Rightarrow> component \<Rightarrow> component" where
  "form_onSubmit is_email = handleSubmit (zodResolver (formSchema is_email)) onSubmit_start"

subsection \<open>The component over time\<close>

text \<open>
  The events the component reacts to: the base URL fetched on mount resolves or fails,
  the session provider delivers a session, the form is submitted, and the promise of a
  request settles. A submit event is handled whenever it arrives: the handler itself
  does not test \<^verbatim>\<open>isLoading\<close>, only the button is disabled while it holds. An exception
  that leaves the handler is not caught by the component: the state stays as the handler
  left it.
\<close>

datatype event =
    ApiUrlResolved jsstring
  | ApiUrlFailed
  | SessionChanged "session option"
  | Submit FormData
  | Settled http_result

fun react :: "(jsstring \<Rightarrow> bool) \<Rightarrow> event \<Rightarrow> component \<Rightarrow> component" where
  "react is_email (ApiUrlResolved u) st = st\<lparr>apiUrl := u\<rparr>"
| "react is_email ApiUrlFailed st =
     toast_show \<lparr>title = lit ''Error'', description = JString (lit ''Failed to fetch API URL''),
                 variant = Some (lit ''destructive'')\<rparr> st"
| "react is_email (SessionChanged s) st = st\<lparr>session := s\<rparr>"
| "react is_email (Submit d) st = form_onSubmit is_email d st"
| "react is_email (Settled r) st = snd (onSubmit_settle (axios_settle r) st)"

definition run :: "(jsstring \<Rightarrow> bool) \<Rightarrow> event list \<Rightarrow> component \<Rightarrow> component" where
  "run is_email evs st = fold (react is_email) evs st"

subsection \<open>What the page shows\<close>

text \<open>
  Each of the seven fields renders what the error object holds under its own name
  (\<^verbatim>\<open>FormMessage\<close>); the submit button is disabled, and shows the progress label, exactly
  while \<^verbatim>\<open>isLoading\<close> holds.
\<close>

record view =
  messages :: "(jsstring \<times> jsvalue) list"
  submit_disabled :: bool
  submit_label :: jsstring

definition render :: "component \<Rightarrow> view" where
  "render st =
     \<lparr>messages = map (\<lambda>f. (f, field_entry st f)) field_names,
      submit_disabled = isLoading st,
      submit_label = (if isLoading st then lit ''Processing...'' else lit ''Create Account'')\<rparr>"

subsection \<open>Names and data used in statements\<close>



text \<open>
  The names for which the library's treatment is a plain property write: letters, digits
  and underscores only, and none of the three names the library or the language treats
  specially.
\<close>

definition plain_name :: "jsstring \<Rightarrow> bool" where
  "plain_name k = (isKey k \<and> k \<noteq> lit ''__proto__'' \<and> k \<noteq> lit ''constructor'' \<and>
                   k \<noteq> lit ''prototype'')"

text \<open>
  A coarse email pattern, used to evaluate the definitions on concrete data: an \<^verbatim>\<open>@\<close>
  with text on both sides.
\<close>

definition simple_email :: "jsstring \<Rightarrow> bool" where
  "simple_email s = (case s of [] \<Rightarrow> False
                     | c # cs \<Rightarrow> c \<noteq> 64 \<and> 64 \<in> set (butlast cs) \<and> cs \<noteq> [])"

definition acme :: FormData where
  "acme = \<lparr>name = lit ''Acme Inc'', email = lit ''a@acme.com'', industry = lit ''Technology'',
           type = lit ''Entertainment'', country = lit ''Nigeria'', state = lit ''Lagos'',
           address = lit ''1 Main St''\<rparr>"

definition alice :: session where
  "alice = \<lparr>user = Some \<lparr>id' = Some (lit ''u1'')\<rparr>, access_token = Some (lit ''tok'')\<rparr>"

section \<open>Basic facts\<close>

subsection \<open>String literals\<close>

lemma length_lit: "length (lit s) = length s"
  by (simp add: lit_def)

lemma lit_Nil_iff: "lit s = [] \<longleftrightarrow> s = []"
  by (simp add: lit_def)

lemma lit_append: "lit (a @ b) = lit a @ lit b"
  by (simp add: lit_def)

lemma code_unit_inj: "(of_nat (of_char c) :: 16 word) = of_nat (of_char d) \<longleftrightarrow> c = d"
proof
  assume h: "(of_nat (of_char c) :: 16 word) = of_nat (of_char d)"
  have c: "(of_char c :: nat) < 65536"
    using nat_of_char_less_256 [of c] by linarith
  have d: "(of_char d :: nat) < 65536"
    using nat_of_char_less_256 [of d] by linarith
  from h have "unat (of_nat (of_char c) :: 16 word) = unat (of_nat (of_char d) :: 16 word)"
    by simp
  with c d have "(of_char c :: nat) = of_char d"
    by (simp add: unat_of_nat)
  then show "c = d" by simp
next
  assume "c = d"
  then show "(of_nat (of_char c) :: 16 word) = of_nat (of_char d)" by simp
qed

lemma lit_eq_iff: "lit a = lit b \<longleftrightarrow> a = b"
proof (induction a arbitrary: b)
  case Nil
  then show ?case by (auto simp: lit_def)
next
  case (Cons c cs)
  then show ?case by (cases b) (auto simp: lit_def code_unit_inj)
qed

lemma field_names_distinct: "distinct field_names"
  by (simp add: field_names_def lit_eq_iff)

subsection \<open>The schema\<close>

lemma z_object_Nil_iff: "z_object checks = [] \<longleftrightarrow> (\<forall>c \<in> set checks. snd c = None)"
  by (induction checks rule: z_object.induct) auto

lemma z_object_keys: "fst ` set (z_object checks) \<subseteq> fst ` set checks"
  by (induction checks rule: z_object.induct) auto

lemma map_of_z_object:
  "distinct (map fst checks) \<Longrightarrow>
   map_of (z_object checks) k = (case map_of checks k of None \<Rightarrow> None | Some r \<Rightarrow> r)"
proof (induction checks rule: z_object.induct)
  case 1
  then show ?case by simp
next
  case (2 key checks)
  from "2.prems" have a: "map_of checks key = None"
    by (simp add: map_of_eq_None_iff)
  from "2.prems" have b: "map_of (z_object checks) key = None"
    using z_object_keys [of checks] by (auto simp: map_of_eq_None_iff)
  from 2 a b show ?case by simp
next
  case (3 key message checks)
  then show ?case by simp
qed

lemma formSchema_lookup:
  "map_of (formSchema is_email d) k =
     (if k = lit ''name'' then
        z_string_min 2 (lit ''Company name must be at least 2 characters.'') (name d)
      else if k = lit ''email'' then
        z_string_email is_email (lit ''Company email must be a valid email address.'') (email d)
      else if k = lit ''industry'' then
        z_string_min 1 (lit ''Please select an industry.'') (industry d)
      else if k = lit ''type'' then
        z_string_min 1 (lit ''Please select an organization type.'') (type d)
      else if k = lit ''country'' then
        z_string_min 1 (lit ''Please select a country.'') (country d)
      else if k = lit ''state'' then
        z_string_min 1 (lit ''Please select a state.'') (state d)
      else if k = lit ''address'' then
        z_string_min 1 (lit ''Please enter company address.'') (address d)
      else None)"
  unfolding formSchema_def
  by (subst map_of_z_object) (simp_all add: lit_eq_iff)

lemma formSchema_Nil_iff:
  "formSchema is_email d = [] \<longleftrightarrow>
     (2 \<le> length (name d) \<and> is_email (email d) \<and> industry d \<noteq> [] \<and> type d \<noteq> [] \<and>
      country d \<noteq> [] \<and> state d \<noteq> [] \<and> address d \<noteq> [])"
  unfolding formSchema_def z_object_Nil_iff
  by (auto simp: z_string_min_def z_string_email_def)

lemma acme_valid: "formSchema simple_email acme = []"
  by (simp add: formSchema_Nil_iff acme_def length_lit lit_Nil_iff)
     (simp add: simple_email_def lit_def)

subsection \<open>The submit wrapper\<close>

lemma toNestErrors_fold:
  "map_of (fold (\<lambda>(path, message) errs.
             if map_of errs path = None
             then errs @ [(path, JObject [(lit ''message'', JString message)])]
             else errs) issues acc) p =
     (case map_of acc p of
        Some x \<Rightarrow> Some x
      | None \<Rightarrow> map_option (\<lambda>m. JObject [(lit ''message'', JString m)]) (map_of issues p))"
proof (induction issues arbitrary: acc)
  case Nil
  then show ?case by (simp split: option.splits)
next
  case (Cons i issues)
  obtain q m where i: "i = (q, m)" by (cases i)
  show ?case
    by (simp add: i Cons.IH map_add_def split: option.splits)
qed

lemma map_of_toNestErrors:
  "map_of (toNestErrors issues) p =
     map_option (\<lambda>m. JObject [(lit ''message'', JString m)]) (map_of issues p)"
  by (simp add: toNestErrors_def toNestErrors_fold)

lemma form_errors_toNestErrors:
  "form_errors (st\<lparr>formState_errors := toNestErrors issues\<rparr>) p = map_of issues p"
  by (cases "map_of issues p") (simp_all add: form_errors_def field_entry_def map_of_toNestErrors)

lemma handleSubmit_invalid:
  "schema d \<noteq> [] \<Longrightarrow>
   handleSubmit (zodResolver schema) onValid d st =
     st\<lparr>formState_errors := toNestErrors (schema d)\<rparr>"
  by (cases "schema d") (simp_all add: handleSubmit_def zodResolver_def)

lemma handleSubmit_valid:
  "schema d = [] \<Longrightarrow>
   handleSubmit (zodResolver schema) onValid d st = onValid d (st\<lparr>formState_errors := []\<rparr>)"
  by (simp add: handleSubmit_def zodResolver_def)

lemma form_onSubmit_valid:
  "formSchema is_email d = [] \<Longrightarrow>
   form_onSubmit is_email d st = onSubmit_start d (st\<lparr>formState_errors := []\<rparr>)"
  unfolding form_onSubmit_def by (rule handleSubmit_valid)

lemma acme_fields:
  "2 \<le> length (name acme)" "simple_email (email acme)" "industry acme \<noteq> []"
  "type acme \<noteq> []" "country acme \<noteq> []" "state acme \<noteq> []" "address acme \<noteq> []"
  using acme_valid by (simp_all add: formSchema_Nil_iff)

subsection \<open>The submit handler up to the request\<close>

lemma onSubmit_start_eq:
  "onSubmit_start d st =
     st\<lparr>isLoading := True,
        posted := posted st @
          [\<lparr>verb = POST,
            url = apiUrl st @ lit ''/api/v1/organizations'',
            data = \<lparr>name = name d, email = email d, industry = industry d, type = type d,
                    country = country d, state = state d, address = address d,
                    user_id = session_user_id (session st), description = lit ''n/a''\<rparr>,
            headers = [(lit ''Authorization'',
                        lit ''Bearer '' @ template (session_access_token (session st)))]\<rparr>]\<rparr>"
  by (cases d) (simp add: onSubmit_start_def axios_post_def FormData.extend_def Let_def)

subsection \<open>Reading the response and storing errors\<close>

lemma js_member_defined:
  "v \<noteq> JNull \<Longrightarrow> v \<noteq> JUndefined \<Longrightarrow> js_member v k = Inr (js_get v k)"
  by (cases v) simp_all

lemma js_get_JObject:
  "js_get (JObject kvs) k = (case map_of kvs k of Some x \<Rightarrow> x | None \<Rightarrow> JUndefined)"
  by simp


lemma merge_error_message:
  "js_get (merge_error c [(lit ''type'', t), (lit ''message'', m)]) (lit ''message'') = m"
  by (simp add: merge_error_def update_conv')

lemma form_setError_plain:
  assumes "plain_name k"
  shows "form_setError (JString k) error st =
     (None, st\<lparr>formState_errors :=
        AList.update k
          (merge_error (if truthy (get_error (formState_errors st) k)
                        then get_error (formState_errors st) k else JObject []) error)
          (formState_errors st)\<rparr>)"
  using assms
  by (simp add: plain_name_def form_setError_def store_error_def assign_def Let_def)



subsection \<open>The submit handler after the request has settled\<close>

lemma settle_fulfilled:
  "onSubmit_settle Fulfilled st =
     (None,
      st\<lparr>toasts := toasts st @ [\<lparr>title = lit ''Organization created successfully'',
                                  description = JString (lit ''Continue to dashboard''),
                                  variant = None\<rparr>],
         pushed := pushed st @ [lit ''/dashboard''],
         isLoading := False\<rparr>)"
  by (simp add: onSubmit_settle_def router_push_def toast_show_def)

lemma settle_other_status:
  "status \<noteq> 422 \<Longrightarrow> body \<noteq> JNull \<Longrightarrow> body \<noteq> JUndefined \<Longrightarrow>
   onSubmit_settle (RejectedWithResponse status body) st =
     (None,
      st\<lparr>toasts := toasts st @
           [\<lparr>title = lit ''Error occurred'',
             description =
               (if truthy (js_get body (lit ''message'')) then js_get body (lit ''message'')
                else JString (lit ''Failed to submit the form. Please try again.'')),
             variant = None\<rparr>],
         isLoading := False\<rparr>)"
  by (simp add: onSubmit_settle_def toast_show_def js_member_defined)

lemma settle_no_response:
  "onSubmit_settle RejectedOther st =
     (None,
      st\<lparr>toasts := toasts st @ [\<lparr>title = lit ''Error occured'',
                                  description = JString (lit ''An unexpected error occurred.''),
                                  variant = None\<rparr>],
         isLoading := False\<rparr>)"
  by (simp add: onSubmit_settle_def toast_show_def)

lemma settle_null_body:
  "body = JNull \<or> body = JUndefined \<Longrightarrow>
   onSubmit_settle (RejectedWithResponse status body) st = (Some TypeError, st)"
  by (auto simp: onSubmit_settle_def)


lemma settle_422_not_array:
  assumes "body \<noteq> JNull" and "body \<noteq> JUndefined"
    and "truthy (js_get body (lit ''errors''))" and "\<not> isArray (js_get body (lit ''errors''))"
  shows "onSubmit_settle (RejectedWithResponse 422 body) st = (Some TypeError, form_clearErrors st)"
  using assms(3,4)
  by (cases "js_get body (lit ''errors'')")
     (simp_all add: onSubmit_settle_def js_member_defined [OF assms(1,2)] Let_def)

lemma axios_settle_422: "axios_settle (Response 422 body) = RejectedWithResponse 422 body"
  by (simp add: axios_settle_def validateStatus_def)

lemma form_setError_effects:
  "toasts (snd (form_setError fname error st)) = toasts st
   \<and> pushed (snd (form_setError fname error st)) = pushed st
   \<and> posted (snd (form_setError fname error st)) = posted st
   \<and> isLoading (snd (form_setError fname error st)) = isLoading st"
  by (cases fname) (simp_all add: form_setError_def store_error_def Let_def)

section \<open>Client-side validation\<close>

text \<open>
  Claim C1. When a required field is empty or malformed (the name has fewer than two
  characters, the email is not a valid email, or industry, type, country, state or
  address is empty), submission is blocked: the result of the submit wrapper does not
  depend on the handler it was given (the handler is not called), no request is handed to
  the HTTP client, the submitting flag, the notifications and the router are untouched,
  and every failing field carries its own validation message. A character is a UTF-16
  code unit, as in the length the schema compares.
\<close>

theorem invalid_input_blocks_submission:
  assumes "length (name d) < 2 \<or> \<not> is_email (email d) \<or> industry d = [] \<or> type d = [] \<or>
           country d = [] \<or> state d = [] \<or> address d = []"
  shows "handleSubmit (zodResolver (formSchema is_email)) onValid d st =
           st\<lparr>formState_errors := toNestErrors (formSchema is_email d)\<rparr>
       \<and> posted (form_onSubmit is_email d st) = posted st
       \<and> isLoading (form_onSubmit is_email d st) = isLoading st
       \<and> toasts (form_onSubmit is_email d st) = toasts st
       \<and> pushed (form_onSubmit is_email d st) = pushed st
       \<and> (length (name d) < 2 \<longrightarrow>
            form_errors (form_onSubmit is_email d st) (lit ''name'') =
              Some (lit ''Company name must be at least 2 characters.''))
       \<and> (\<not> is_email (email d) \<longrightarrow>
            form_errors (form_onSubmit is_email d st) (lit ''email'') =
              Some (lit ''Company email must be a valid email address.''))
       \<and> (industry d = [] \<longrightarrow>
            form_errors (form_onSubmit is_email d st) (lit ''industry'') =
              Some (lit ''Please select an industry.''))
       \<and> (type d = [] \<longrightarrow>
            form_errors (form_onSubmit is_email d st) (lit ''type'') =
              Some (lit ''Please select an organization type.''))
       \<and> (country d = [] \<longrightarrow>
            form_errors (form_onSubmit is_email d st) (lit ''country'') =
              Some (lit ''Please select a country.''))
       \<and> (state d = [] \<longrightarrow>
            form_errors (form_onSubmit is_email d st) (lit ''state'') =
              Some (lit ''Please select a state.''))
       \<and> (address d = [] \<longrightarrow>
            form_errors (form_onSubmit is_email d st) (lit ''address'') =
              Some (lit ''Please enter company address.''))"
proof -
  from assms have bad: "formSchema is_email d \<noteq> []"
    by (auto simp: formSchema_Nil_iff)
  have blocked: "\<And>h. handleSubmit (zodResolver (formSchema is_email)) h d st =
      st\<lparr>formState_errors := toNestErrors (formSchema is_email d)\<rparr>"
    using bad by (rule handleSubmit_invalid)
  have sub: "form_onSubmit is_email d st =
      st\<lparr>formState_errors := toNestErrors (formSchema is_email d)\<rparr>"
    unfolding form_onSubmit_def by (rule blocked)
  show ?thesis
    unfolding sub form_errors_toNestErrors
    by (simp add: blocked formSchema_lookup lit_eq_iff z_string_min_def z_string_email_def)
qed

text \<open>
  The hypothesis of C1 at a form whose name is the single letter A and whose state is
  empty: nothing is posted and both fields carry their messages.
\<close>

theorem invalid_input_blocks_submission_witness:
  "length (name (acme\<lparr>name := lit ''A'', state := []\<rparr>)) < 2
   \<and> posted (form_onSubmit simple_email (acme\<lparr>name := lit ''A'', state := []\<rparr>) (initial None)) = []
   \<and> form_errors (form_onSubmit simple_email (acme\<lparr>name := lit ''A'', state := []\<rparr>) (initial None))
        (lit ''name'') = Some (lit ''Company name must be at least 2 characters.'')
   \<and> form_errors (form_onSubmit simple_email (acme\<lparr>name := lit ''A'', state := []\<rparr>) (initial None))
        (lit ''state'') = Some (lit ''Please select a state.'')"
  using invalid_input_blocks_submission
    [of "acme\<lparr>name := lit ''A'', state := []\<rparr>" simple_email onSubmit_start "initial None"]
  by (simp add: acme_def length_lit initial_def)

text \<open>
  Claim C2 says that the schema accepts a value for industry, type, country and state
  only if it is one of the options of the field's select control. The schema does not
  look at the options: the industry \<^verbatim>\<open>Foo\<close>, which the control does not offer, passes
  validation with the rest of the form.
\<close>

theorem schema_accepts_unlisted_option:
  "lit ''Foo'' \<notin> set industry_options
   \<and> zodResolver (formSchema simple_email) (acme\<lparr>industry := lit ''Foo''\<rparr>)
       = Inr (acme\<lparr>industry := lit ''Foo''\<rparr>)"
proof -
  have "formSchema simple_email (acme\<lparr>industry := lit ''Foo''\<rparr>) = []"
    by (simp add: formSchema_Nil_iff acme_def length_lit lit_Nil_iff)
       (simp add: simple_email_def lit_def)
  then show ?thesis
    by (simp add: zodResolver_def industry_options_def lit_eq_iff)
qed

text \<open>
  Claim C2, amended. The schema raises no issue for the industry, type, country or state
  field exactly when the value is non-empty; membership in the options is left to the
  select controls.
\<close>

theorem select_fields_checked_for_nonempty_only:
  "(map_of (formSchema is_email d) (lit ''industry'') = None \<longleftrightarrow> industry d \<noteq> [])
   \<and> (map_of (formSchema is_email d) (lit ''type'') = None \<longleftrightarrow> type d \<noteq> [])
   \<and> (map_of (formSchema is_email d) (lit ''country'') = None \<longleftrightarrow> country d \<noteq> [])
   \<and> (map_of (formSchema is_email d) (lit ''state'') = None \<longleftrightarrow> state d \<noteq> [])"
  by (simp add: formSchema_lookup lit_eq_iff z_string_min_def)

section \<open>The request\<close>

text \<open>
  Claim C3. For every input that passes the schema, submitting hands exactly one request
  to the HTTP client: a POST to the base URL followed by \<^verbatim>\<open>/api/v1/organizations\<close>, whose
  body is the seven validated fields, the \<^verbatim>\<open>user_id\<close> read from the session and the
  description \<^verbatim>\<open>n/a\<close>, with the header \<^verbatim>\<open>Authorization: Bearer <access_token>\<close>; when
  the session has a user id and an access token, these are the values sent.
\<close>

theorem valid_input_posts_once:
  assumes "2 \<le> length (name d)" and "is_email (email d)" and "industry d \<noteq> []"
    and "type d \<noteq> []" and "country d \<noteq> []" and "state d \<noteq> []" and "address d \<noteq> []"
  shows "posted (form_onSubmit is_email d st) = posted st @
          [\<lparr>verb = POST,
            url = apiUrl st @ lit ''/api/v1/organizations'',
            data = \<lparr>name = name d, email = email d, industry = industry d, type = type d,
                    country = country d, state = state d, address = address d,
                    user_id = session_user_id (session st), description = lit ''n/a''\<rparr>,
            headers = [(lit ''Authorization'',
                        lit ''Bearer '' @ template (session_access_token (session st)))]\<rparr>]
       \<and> (\<forall>s u i t. session st = Some s \<and> user s = Some u \<and> id' u = Some i \<and>
             access_token s = Some t \<longrightarrow>
             session_user_id (session st) = Some i \<and>
             template (session_access_token (session st)) = t)"
proof -
  from assms have ok: "formSchema is_email d = []"
    by (simp add: formSchema_Nil_iff)
  show ?thesis
    by (simp add: form_onSubmit_valid [OF ok] onSubmit_start_eq session_user_id_def
        session_access_token_def template_def)
qed

text \<open>
  C3 at the form of the specification's example, with a resolved base URL and a signed-in
  user.
\<close>

theorem valid_input_posts_once_witness:
  "2 \<le> length (name acme) \<and> simple_email (email acme) \<and> industry acme \<noteq> [] \<and> type acme \<noteq> [] \<and>
   country acme \<noteq> [] \<and> state acme \<noteq> [] \<and> address acme \<noteq> [] \<and>
   posted (form_onSubmit simple_email acme ((initial (Some alice))\<lparr>apiUrl := lit ''https://api.test''\<rparr>)) =
     [\<lparr>verb = POST,
       url = lit ''https://api.test/api/v1/organizations'',
       data = \<lparr>name = lit ''Acme Inc'', email = lit ''a@acme.com'', industry = lit ''Technology'',
               type = lit ''Entertainment'', country = lit ''Nigeria'', state = lit ''Lagos'',
               address = lit ''1 Main St'', user_id = Some (lit ''u1''), description = lit ''n/a''\<rparr>,
       headers = [(lit ''Authorization'', lit ''Bearer tok'')]\<rparr>]"
proof -
  note v = acme_fields
  from valid_input_posts_once
    [of acme simple_email "(initial (Some alice))\<lparr>apiUrl := lit ''https://api.test''\<rparr>"]
  show ?thesis
    using v by (simp add: initial_def alice_def acme_def session_user_id_def
        session_access_token_def template_def lit_append [symmetric])
qed

text \<open>
  Claim C9. Nothing keeps the form from being submitted before the base URL has been
  fetched: the base URL starts as the empty string, and a valid submission in a state
  where it still is empty hands one POST to the HTTP client, for the URL
  \<^verbatim>\<open>/api/v1/organizations\<close>.
\<close>

theorem submit_before_base_url_resolved:
  assumes "2 \<le> length (name d)" and "is_email (email d)" and "industry d \<noteq> []"
    and "type d \<noteq> []" and "country d \<noteq> []" and "state d \<noteq> []" and "address d \<noteq> []"
    and "apiUrl st = []"
  shows "apiUrl (initial s) = []
       \<and> (\<exists>r. posted (form_onSubmit is_email d st) = posted st @ [r]
              \<and> verb r = POST \<and> url r = lit ''/api/v1/organizations'')"
proof -
  from assms have ok: "formSchema is_email d = []"
    by (simp add: formSchema_Nil_iff)
  show ?thesis
    using assms(8)
    by (simp add: form_onSubmit_valid [OF ok] onSubmit_start_eq initial_def)
qed

theorem submit_before_base_url_resolved_witness:
  "2 \<le> length (name acme) \<and> simple_email (email acme) \<and> industry acme \<noteq> [] \<and> type acme \<noteq> [] \<and>
   country acme \<noteq> [] \<and> state acme \<noteq> [] \<and> address acme \<noteq> [] \<and> apiUrl (initial None) = [] \<and>
   map verb (posted (form_onSubmit simple_email acme (initial None))) = [POST] \<and>
   map url (posted (form_onSubmit simple_email acme (initial None))) =
     [lit ''/api/v1/organizations'']"
proof -
  have u: "apiUrl (initial None) = []" "posted (initial None) = []"
    by (simp_all add: initial_def)
  from submit_before_base_url_resolved [of acme simple_email "initial None" None]
  show ?thesis
    using acme_fields u by auto
qed

text \<open>
  Claim C10. While the session is undefined a valid submission still goes out: the
  payload's \<^verbatim>\<open>user_id\<close> is undefined and the header reads
  \<^verbatim>\<open>Authorization: Bearer undefined\<close>.
\<close>

theorem submit_without_session:
  assumes "2 \<le> length (name d)" and "is_email (email d)" and "industry d \<noteq> []"
    and "type d \<noteq> []" and "country d \<noteq> []" and "state d \<noteq> []" and "address d \<noteq> []"
    and "session st = None"
  shows "\<exists>r. posted (form_onSubmit is_email d st) = posted st @ [r]
            \<and> verb r = POST
            \<and> user_id (data r) = None
            \<and> headers r = [(lit ''Authorization'', lit ''Bearer undefined'')]"
proof -
  from assms have ok: "formSchema is_email d = []"
    by (simp add: formSchema_Nil_iff)
  show ?thesis
    using assms(8)
    by (simp add: form_onSubmit_valid [OF ok] onSubmit_start_eq session_user_id_def
        session_access_token_def template_def lit_append [symmetric])
qed

theorem submit_without_session_witness:
  "2 \<le> length (name acme) \<and> simple_email (email acme) \<and> industry acme \<noteq> [] \<and> type acme \<noteq> [] \<and>
   country acme \<noteq> [] \<and> state acme \<noteq> [] \<and> address acme \<noteq> [] \<and> session (initial None) = None \<and>
   map (\<lambda>r. user_id (data r)) (posted (form_onSubmit simple_email acme (initial None))) = [None] \<and>
   map headers (posted (form_onSubmit simple_email acme (initial None))) =
     [[(lit ''Authorization'', lit ''Bearer undefined'')]]"
proof -
  have u: "session (initial None) = None" "posted (initial None) = []"
    by (simp_all add: initial_def)
  from submit_without_session [of acme simple_email "initial None"]
  show ?thesis
    using acme_fields u by auto
qed

section \<open>The response\<close>

text \<open>
  Claim C4. When the response has a 2xx status, the handler ends without an exception,
  the success notification is shown, the router is sent to \<^verbatim>\<open>/dashboard\<close> exactly once,
  and no further request is made (the form's errors are left alone as well).
\<close>

theorem success_notifies_and_navigates_once:
  assumes "200 \<le> status" and "status < 300"
  shows "fst (onSubmit_settle (axios_settle (Response status body)) st) = None
       \<and> toasts (snd (onSubmit_settle (axios_settle (Response status body)) st)) =
           toasts st @ [\<lparr>title = lit ''Organization created successfully'',
                          description = JString (lit ''Continue to dashboard''),
                          variant = None\<rparr>]
       \<and> pushed (snd (onSubmit_settle (axios_settle (Response status body)) st)) =
           pushed st @ [lit ''/dashboard'']
       \<and> posted (snd (onSubmit_settle (axios_settle (Response status body)) st)) = posted st
       \<and> formState_errors (snd (onSubmit_settle (axios_settle (Response status body)) st)) =
           formState_errors st"
  using assms by (simp add: axios_settle_def validateStatus_def settle_fulfilled)

theorem success_notifies_and_navigates_once_witness:
  "(200::nat) \<le> 201 \<and> (201::nat) < 300
   \<and> toasts (snd (onSubmit_settle (axios_settle (Response 201 (JObject [])))
        (onSubmit_start acme (initial None)))) =
       [\<lparr>title = lit ''Organization created successfully'',
         description = JString (lit ''Continue to dashboard''), variant = None\<rparr>]
   \<and> pushed (snd (onSubmit_settle (axios_settle (Response 201 (JObject [])))
        (onSubmit_start acme (initial None)))) = [lit ''/dashboard'']
   \<and> length (posted (snd (onSubmit_settle (axios_settle (Response 201 (JObject [])))
        (onSubmit_start acme (initial None))))) = 1"
  using success_notifies_and_navigates_once
    [of 201 "JObject []" "onSubmit_start acme (initial None)"]
  by (simp add: onSubmit_start_eq initial_def)




text \<open>
  Claim C6 says that the notification for a failure other than 422 shows the server's
  \<^verbatim>\<open>data.message\<close> whenever it is present. A message that is present but empty is
  replaced by the fallback: a 500 response whose message is the empty string shows
  \<^verbatim>\<open>Failed to submit the form. Please try again.\<close>
\<close>

theorem empty_server_message_falls_back:
  "js_get (JObject [(lit ''message'', JString [])]) (lit ''message'') = JString []
   \<and> axios_settle (Response 500 (JObject [(lit ''message'', JString [])]))
       = RejectedWithResponse 500 (JObject [(lit ''message'', JString [])])
   \<and> toasts (snd (onSubmit_settle
        (axios_settle (Response 500 (JObject [(lit ''message'', JString [])]))) (initial None))) =
       [\<lparr>title = lit ''Error occurred'',
         description = JString (lit ''Failed to submit the form. Please try again.''),
         variant = None\<rparr>]
   \<and> lit ''Failed to submit the form. Please try again.'' \<noteq> []"
  by (simp add: axios_settle_def validateStatus_def settle_other_status initial_def lit_Nil_iff)

text \<open>
  Claim C6, amended. For a response whose status is neither 2xx nor 422 and whose body
  is neither \<^verbatim>\<open>null\<close> nor \<^verbatim>\<open>undefined\<close>, the handler ends without an exception and
  one notification is shown, titled \<^verbatim>\<open>Error occurred\<close>, whose description is the
  body's \<^verbatim>\<open>message\<close> when that is truthy (for a string: present and not empty), and
  otherwise \<^verbatim>\<open>Failed to submit the form. Please try again.\<close> For a failure without a
  response, one notification is shown with the description
  \<^verbatim>\<open>An unexpected error occurred.\<close> In both cases the form's errors are unchanged, the
  router is not used and no request is made.
\<close>

theorem other_failure_shows_generic_toast:
  "((status < 200 \<or> 300 \<le> status) \<and> status \<noteq> 422 \<and> body \<noteq> JNull \<and> body \<noteq> JUndefined \<longrightarrow>
      fst (onSubmit_settle (axios_settle (Response status body)) st) = None
      \<and> toasts (snd (onSubmit_settle (axios_settle (Response status body)) st)) =
          toasts st @
            [\<lparr>title = lit ''Error occurred'',
              description =
                (if truthy (js_get body (lit ''message'')) then js_get body (lit ''message'')
                 else JString (lit ''Failed to submit the form. Please try again.'')),
              variant = None\<rparr>]
      \<and> (\<forall>m. js_get body (lit ''message'') = JString m \<and> m \<noteq> [] \<longrightarrow>
            map description (toasts (snd (onSubmit_settle (axios_settle (Response status body)) st)))
              = map description (toasts st) @ [JString m])
      \<and> (js_get body (lit ''message'') = JUndefined \<or> js_get body (lit ''message'') = JString [] \<longrightarrow>
            map description (toasts (snd (onSubmit_settle (axios_settle (Response status body)) st)))
              = map description (toasts st) @
                  [JString (lit ''Failed to submit the form. Please try again.'')])
      \<and> formState_errors (snd (onSubmit_settle (axios_settle (Response status body)) st)) =
          formState_errors st
      \<and> pushed (snd (onSubmit_settle (axios_settle (Response status body)) st)) = pushed st
      \<and> posted (snd (onSubmit_settle (axios_settle (Response status body)) st)) = posted st)
   \<and> fst (onSubmit_settle (axios_settle NoResponse) st) = None
   \<and> toasts (snd (onSubmit_settle (axios_settle NoResponse) st)) =
       toasts st @ [\<lparr>title = lit ''Error occured'',
                      description = JString (lit ''An unexpected error occurred.''),
                      variant = None\<rparr>]
   \<and> formState_errors (snd (onSubmit_settle (axios_settle NoResponse) st)) = formState_errors st
   \<and> pushed (snd (onSubmit_settle (axios_settle NoResponse) st)) = pushed st
   \<and> posted (snd (onSubmit_settle (axios_settle NoResponse) st)) = posted st"
proof -
  have resp: "(status < 200 \<or> 300 \<le> status) \<and> status \<noteq> 422 \<and> body \<noteq> JNull \<and> body \<noteq> JUndefined \<Longrightarrow>
      onSubmit_settle (axios_settle (Response status body)) st =
        (None,
         st\<lparr>toasts := toasts st @
              [\<lparr>title = lit ''Error occurred'',
                description =
                  (if truthy (js_get body (lit ''message'')) then js_get body (lit ''message'')
                   else JString (lit ''Failed to submit the form. Please try again.'')),
                variant = None\<rparr>],
            isLoading := False\<rparr>)"
    by (auto simp: axios_settle_def validateStatus_def settle_other_status)
  have none: "onSubmit_settle (axios_settle NoResponse) st =
      (None,
       st\<lparr>toasts := toasts st @ [\<lparr>title = lit ''Error occured'',
              description = JString (lit ''An unexpected error occurred.''), variant = None\<rparr>],
          isLoading := False\<rparr>)"
    by (simp add: axios_settle_def settle_no_response)
  show ?thesis
    unfolding none
    by (auto simp: resp)
qed

text \<open>
  The amended C6 at the specification's example: a 500 response with the message
  \<^verbatim>\<open>Server down\<close>.
\<close>

theorem other_failure_shows_generic_toast_witness:
  "((500::nat) < 200 \<or> 300 \<le> (500::nat)) \<and> (500::nat) \<noteq> 422
   \<and> JObject [(lit ''message'', JString (lit ''Server down''))] \<noteq> JNull
   \<and> JObject [(lit ''message'', JString (lit ''Server down''))] \<noteq> JUndefined
   \<and> toasts (snd (onSubmit_settle
        (axios_settle (Response 500 (JObject [(lit ''message'', JString (lit ''Server down''))])))
        (initial None))) =
       [\<lparr>title = lit ''Error occurred'', description = JString (lit ''Server down''),
         variant = None\<rparr>]
   \<and> formState_errors (snd (onSubmit_settle
        (axios_settle (Response 500 (JObject [(lit ''message'', JString (lit ''Server down''))])))
        (initial None))) = []"
  using other_failure_shows_generic_toast
    [of 500 "JObject [(lit ''message'', JString (lit ''Server down''))]" "initial None"]
  by (simp add: initial_def lit_Nil_iff)

section \<open>Unrecognized field names\<close>

text \<open>
  A name that is not a single key is a path: \<^verbatim>\<open>email.x\<close> is stored inside the entry of
  the email field.
\<close>

lemma path_name_writes_under_first_key:
  "form_setError (JString (lit ''email.x''))
     [(lit ''type'', JString (lit ''manual'')), (lit ''message'', JString (lit ''taken''))]
     (initial None) =
   (None,
    (initial None)\<lparr>formState_errors :=
      [(lit ''email'',
        JObject [(lit ''x'',
          JObject [(lit ''type'', JString (lit ''manual'')),
                   (lit ''message'', JString (lit ''taken''))])])]\<rparr>)"
  by (simp add: form_setError_def store_error_def get_error_def stringToPath_def compact_def
      isKey_def word_char_def merge_error_def assign_def initial_def lit_def Let_def)

text \<open>
  Claim C8 says that a pair whose field name is none of the seven form fields changes
  no form state. The handler passes every name to \<^verbatim>\<open>form.setError\<close> unfiltered, so the
  error is recorded under that name: after a 422 response naming the field \<^verbatim>\<open>foo\<close>
  the form's errors hold an entry for \<^verbatim>\<open>foo\<close> that was not there before.
\<close>

theorem unrecognized_field_changes_form_state:
  "lit ''foo'' \<notin> set field_names
   \<and> field_entry (initial None) (lit ''foo'') = JUndefined
   \<and> form_errors (snd (form_setError (JString (lit ''foo''))
        [(lit ''type'', JString (lit ''manual'')), (lit ''message'', JString (lit ''bad''))]
        (initial None))) (lit ''foo'')
       = Some (lit ''bad'')
   \<and> form_errors (snd (onSubmit_settle (axios_settle
        (Response 422 (JObject [(lit ''errors'',
           JArray [JObject [(lit ''field'', JString (lit ''foo'')),
                            (lit ''message'', JString (lit ''bad''))]])]))) (initial None)))
        (lit ''foo'')
       = Some (lit ''bad'')"
proof -
  have plain: "plain_name (lit ''foo'')"
    by (simp add: plain_name_def lit_eq_iff) (simp add: isKey_def word_char_def lit_def)
  have one: "form_errors (snd (form_setError (JString (lit ''foo''))
        [(lit ''type'', JString (lit ''manual'')), (lit ''message'', JString (lit ''bad''))]
        (initial None))) (lit ''foo'') = Some (lit ''bad'')"
    by (simp add: form_setError_plain [OF plain] form_errors_def field_entry_def update_conv'
        merge_error_message)
  have all: "form_errors (snd (onSubmit_settle (axios_settle
        (Response 422 (JObject [(lit ''errors'',
           JArray [JObject [(lit ''field'', JString (lit ''foo'')),
                            (lit ''message'', JString (lit ''bad''))]])]))) (initial None)))
        (lit ''foo'') = Some (lit ''bad'')"
    by (simp add: axios_settle_422 onSubmit_settle_def lit_eq_iff form_setError_plain [OF plain]
        form_clearErrors_def form_errors_def field_entry_def update_conv' merge_error_message)
  from one all show ?thesis
    by (simp add: field_names_def lit_eq_iff field_entry_def initial_def)
qed

text \<open>
  Claim C8, amended. Handling a pair shows no notification, uses neither the router nor
  the HTTP client and leaves the submitting flag as it was, whatever the pair's field
  name. When the name is made of letters, digits and underscores only and is neither one
  of the seven form fields nor \<^verbatim>\<open>__proto__\<close>, \<^verbatim>\<open>constructor\<close> or \<^verbatim>\<open>prototype\<close>,
  handling the pair also leaves what the seven fields find in the error object as it
  was, and so changes nothing of what the page shows; it does record the pair's message
  in the form's errors under that name.
\<close>

theorem unrecognized_field_is_stored_not_shown:
  "toasts (snd (form_setError fname
       [(lit ''type'', JString (lit ''manual'')), (lit ''message'', m)] st)) = toasts st
   \<and> pushed (snd (form_setError fname
       [(lit ''type'', JString (lit ''manual'')), (lit ''message'', m)] st)) = pushed st
   \<and> posted (snd (form_setError fname
       [(lit ''type'', JString (lit ''manual'')), (lit ''message'', m)] st)) = posted st
   \<and> isLoading (snd (form_setError fname
       [(lit ''type'', JString (lit ''manual'')), (lit ''message'', m)] st)) = isLoading st
   \<and> (plain_name f \<and> f \<notin> set field_names \<longrightarrow>
        fst (form_setError (JString f)
          [(lit ''type'', JString (lit ''manual'')), (lit ''message'', m)] st) = None
        \<and> (\<forall>g \<in> set field_names.
              field_entry (snd (form_setError (JString f)
                [(lit ''type'', JString (lit ''manual'')), (lit ''message'', m)] st)) g
              = field_entry st g)
        \<and> render (snd (form_setError (JString f)
            [(lit ''type'', JString (lit ''manual'')), (lit ''message'', m)] st)) = render st
        \<and> js_get (field_entry (snd (form_setError (JString f)
            [(lit ''type'', JString (lit ''manual'')), (lit ''message'', m)] st)) f)
            (lit ''message'') = m)"
proof -
  let ?error = "[(lit ''type'', JString (lit ''manual'')), (lit ''message'', m)]"
  have specific: "fst (form_setError (JString f) ?error st) = None
      \<and> (\<forall>g \<in> set field_names.
            field_entry (snd (form_setError (JString f) ?error st)) g = field_entry st g)
      \<and> render (snd (form_setError (JString f) ?error st)) = render st
      \<and> js_get (field_entry (snd (form_setError (JString f) ?error st)) f) (lit ''message'') = m"
    if plain: "plain_name f" and other: "f \<notin> set field_names"
  proof -
    let ?st' = "snd (form_setError (JString f) ?error st)"
    have others: "\<forall>g \<in> set field_names. field_entry ?st' g = field_entry st g"
      using other by (auto simp: form_setError_plain [OF plain] field_entry_def update_conv')
    then have "map (\<lambda>g. (g, field_entry ?st' g)) field_names =
        map (\<lambda>g. (g, field_entry st g)) field_names"
      by simp
    moreover have "isLoading ?st' = isLoading st"
      by (simp add: form_setError_plain [OF plain])
    ultimately have shown: "render ?st' = render st"
      by (simp add: render_def)
    have stored: "js_get (field_entry ?st' f) (lit ''message'') = m"
      by (simp add: form_setError_plain [OF plain] field_entry_def update_conv'
          merge_error_message)
    have "fst (form_setError (JString f) ?error st) = None"
      by (simp add: form_setError_plain [OF plain])
    with others shown stored show ?thesis
      by blast
  qed
  from form_setError_effects [of fname ?error st] specific show ?thesis
    by blast
qed

theorem unrecognized_field_is_stored_not_shown_witness:
  "plain_name (lit ''foo'') \<and> lit ''foo'' \<notin> set field_names
   \<and> toasts (snd (form_setError (JString (lit ''foo''))
       [(lit ''type'', JString (lit ''manual'')), (lit ''message'', JString (lit ''bad''))]
       (initial None))) = []
   \<and> render (snd (form_setError (JString (lit ''foo''))
       [(lit ''type'', JString (lit ''manual'')), (lit ''message'', JString (lit ''bad''))]
       (initial None))) = render (initial None)
   \<and> js_get (field_entry (snd (form_setError (JString (lit ''foo''))
       [(lit ''type'', JString (lit ''manual'')), (lit ''message'', JString (lit ''bad''))]
       (initial None))) (lit ''foo'')) (lit ''message'') = JString (lit ''bad'')"
proof -
  have plain: "plain_name (lit ''foo'')"
    by (simp add: plain_name_def lit_eq_iff) (simp add: isKey_def word_char_def lit_def)
  have other: "lit ''foo'' \<notin> set field_names"
    by (simp add: field_names_def lit_eq_iff)
  have none: "toasts (initial None) = []"
    by (simp add: initial_def)
  from unrecognized_field_is_stored_not_shown
    [of "JString (lit ''foo'')" "JString (lit ''bad'')" "initial None" "lit ''foo''"]
    plain other none
  show ?thesis
    by simp
qed

section \<open>The submitting flag\<close>

lemma run_submit_settle:
  "run simple_email [Submit acme, Settled r] (initial None) =
     snd (onSubmit_settle (axios_settle r) (onSubmit_start acme (initial None)))"
proof -
  have "(initial None)\<lparr>formState_errors := []\<rparr> = initial None"
    by (simp add: initial_def)
  then show ?thesis
    by (simp add: run_def form_onSubmit_valid [OF acme_valid])
qed

lemma onSubmit_start_loading: "isLoading (onSubmit_start d st)"
  by (simp add: onSubmit_start_def axios_post_def Let_def)

text \<open>
  Claim C7 says that the submitting flag is cleared on every exit path of the handler.
  The handler clears it after the \<^verbatim>\<open>try\<close>/\<^verbatim>\<open>catch\<close> statement, not in a \<^verbatim>\<open>finally\<close>
  block, so an exception thrown inside the \<^verbatim>\<open>catch\<close> block leaves it set. That happens
  for a 422 response whose body is \<^verbatim>\<open>null\<close>, for a 422 response whose \<^verbatim>\<open>errors\<close> is
  an object and not an array, and for a 500 response whose body is \<^verbatim>\<open>null\<close>: after
  the example form is submitted and such a response arrives, the flag is still on and
  the submit button is still disabled (and for the 500 response no notification has
  been shown).
\<close>

theorem submitting_flag_stays_on_when_catch_throws:
  "fst (onSubmit_settle (axios_settle (Response 422 JNull))
          (onSubmit_start acme (initial None))) = Some TypeError
   \<and> isLoading (run simple_email [Submit acme, Settled (Response 422 JNull)] (initial None))
   \<and> submit_disabled (render
        (run simple_email [Submit acme, Settled (Response 422 JNull)] (initial None)))
   \<and> fst (onSubmit_settle (axios_settle
        (Response 422 (JObject [(lit ''errors'',
           JObject [(lit ''email'', JString (lit ''taken''))])])))
          (onSubmit_start acme (initial None))) = Some TypeError
   \<and> isLoading (run simple_email
        [Submit acme,
         Settled (Response 422 (JObject [(lit ''errors'',
           JObject [(lit ''email'', JString (lit ''taken''))])]))] (initial None))
   \<and> fst (onSubmit_settle (axios_settle (Response 500 JNull))
          (onSubmit_start acme (initial None))) = Some TypeError
   \<and> isLoading (run simple_email [Submit acme, Settled (Response 500 JNull)] (initial None))
   \<and> toasts (run simple_email [Submit acme, Settled (Response 500 JNull)] (initial None)) = []"
proof -
  have a500: "axios_settle (Response 500 JNull) = RejectedWithResponse 500 JNull"
    by (simp add: axios_settle_def validateStatus_def)
  have obj: "onSubmit_settle (RejectedWithResponse 422
        (JObject [(lit ''errors'', JObject [(lit ''email'', JString (lit ''taken''))])])) s =
      (Some TypeError, form_clearErrors s)" for s
    by (rule settle_422_not_array) simp_all
  have started: "toasts (onSubmit_start acme (initial None)) = []"
    by (simp add: onSubmit_start_eq initial_def)
  show ?thesis
    by (simp add: run_submit_settle axios_settle_422 a500 settle_null_body obj render_def
        onSubmit_start_loading form_clearErrors_def started)
qed

end
